theory Spec2Isabelle
  imports Main "HOL-Library.Word"
begin

section \<open>A Chord node: stabilisation and lookup (chord\_impl.c)\<close>

text \<open>
  The development embeds the functions of \<^verbatim>\<open>src/src/chord_impl.c\<close>:
  \<^verbatim>\<open>send_to_node\<close>, \<^verbatim>\<open>wait_for_response\<close>, \<^verbatim>\<open>stabilize\<close>,
  \<^verbatim>\<open>fix_successor_list\<close>, \<^verbatim>\<open>fix_fingers\<close>, \<^verbatim>\<open>find_successor\<close> and
  \<^verbatim>\<open>closest_preceding_node\<close>. The globals of \<^verbatim>\<open>chord_impl.h\<close> become one record
  that every function takes and returns. What the operating system answers (the value of
  \<^verbatim>\<open>sendto\<close>, the readings of \<^verbatim>\<open>time\<close>, the results of \<^verbatim>\<open>select\<close>) is an explicit
  input. The three functions that the header declares \<^verbatim>\<open>extern\<close> and that are defined
  elsewhere (\<^verbatim>\<open>element_of\<close>, \<^verbatim>\<open>process_chord_msg\<close>, \<^verbatim>\<open>notify\<close>) are parameters.

  Not represented: the bytes of a datagram (\<^verbatim>\<open>pack_chord_message\<close> and the length that
  is passed along with the buffer), \<^verbatim>\<open>malloc\<close> and \<^verbatim>\<open>free\<close> (allocation is taken to
  succeed, an array is the list of its entries), and what is printed. Of
  \<^verbatim>\<open>pack_chord_message\<close> one effect is kept: it stores the size through the pointer
  \<^verbatim>\<open>total_size\<close> that its caller gives it.
\<close>

subsection \<open>Data\<close>

text \<open>
  Modelled from the spec: \<^verbatim>\<open>Node\<close> is declared in \<^verbatim>\<open>chord.pb-c.h\<close>, which is not among
  the sources. The field names are those the code uses (\<^verbatim>\<open>key\<close>, \<^verbatim>\<open>address\<close>,
  \<^verbatim>\<open>port\<close>), the widths those of the spec's node descriptor (u64, u32, u16).
\<close>

record Node =
  key :: "64 word"
  address :: "32 word"
  port :: "16 word"

text \<open>
  Modelled from the spec: \<^verbatim>\<open>ChordMessage__MsgCase\<close> is declared in \<^verbatim>\<open>chord.pb-c.h\<close>.
  The constants are the seven that the code names and the three further tags of the spec's
  wire codec.
\<close>

datatype ChordMessage__MsgCase =
    CHORD_MESSAGE__MSG__NOT_SET
  | CHORD_MESSAGE__MSG_NOTIFY_REQUEST
  | CHORD_MESSAGE__MSG_GET_PREDECESSOR_REQUEST
  | CHORD_MESSAGE__MSG_GET_PREDECESSOR_RESPONSE
  | CHORD_MESSAGE__MSG_GET_SUCCESSOR_LIST_REQUEST
  | CHORD_MESSAGE__MSG_GET_SUCCESSOR_LIST_RESPONSE
  | CHORD_MESSAGE__MSG_START_FIND_SUCCESSOR_REQUEST
  | CHORD_MESSAGE__MSG_START_FIND_SUCCESSOR_RESPONSE
  | CHORD_MESSAGE__MSG_CHECK_PREDECESSOR_REQUEST
  | CHORD_MESSAGE__MSG_CHECK_PREDECESSOR_RESPONSE

text \<open>
  \<^verbatim>\<open>MessageResponse\<close> of \<^verbatim>\<open>chord.h\<close>. The pair \<^verbatim>\<open>n_successors\<close>, \<^verbatim>\<open>successors\<close>
  (a count and a pointer to that many nodes) is the list \<open>successors\<close>.
\<close>

record MessageResponse =
  type :: ChordMessage__MsgCase
  node :: Node
  successors :: "Node list"

text \<open>The request that a \<^verbatim>\<open>ChordMessage\<close> carries, and the message itself.\<close>

datatype Request =
    GetPredecessorRequest
  | GetSuccessorListRequest
  | StartFindSuccessorRequest "64 word"
  | NotifyRequest Node

record ChordMessage =
  version :: int
  msg_case :: ChordMessage__MsgCase
  request :: Request

text \<open>
  The globals of \<^verbatim>\<open>chord_impl.h\<close>. \<open>finger_table\<close> and \<open>successor_list\<close> point to
  arrays: each is the list of the entries allocated. \<open>outbox\<close> is not a variable of the
  program: it lists, oldest first, the datagrams that \<^verbatim>\<open>sendto\<close> has accepted, each with
  the node it was addressed to.
\<close>

record state =
  hash :: "64 word"
  predecessor :: Node
  successor :: Node
  finger_table :: "Node list"
  successor_list :: "Node list"
  self :: Node
  succListIndex :: int
  fixIndex :: int
  outbox :: "(Node \<times> ChordMessage) list"

text \<open>
  The functions declared \<^verbatim>\<open>extern\<close> in \<^verbatim>\<open>chord_impl.h\<close>. \<open>element_of\<close> returns a C
  truth value. \<open>process_chord_msg\<close> reads one datagram (of a type \<open>'d\<close> left open),
  may change the globals and send replies, and returns a \<open>MessageResponse\<close>.
  \<open>notify\<close> returns nothing and may change the state.
\<close>

record 'd externs =
  element_of :: "64 word \<Rightarrow> 64 word \<Rightarrow> 64 word \<Rightarrow> int \<Rightarrow> int"
  process_chord_msg :: "int \<Rightarrow> 'd \<Rightarrow> state \<Rightarrow> MessageResponse \<times> state"
  notify :: "state \<Rightarrow> state"

text \<open>
  One round of the loop of \<^verbatim>\<open>wait_for_response\<close>, as the environment decides it: the
  value of \<^verbatim>\<open>select\<close>, whether \<^verbatim>\<open>FD_ISSET\<close> holds, the datagram that is then read,
  and the reading of \<^verbatim>\<open>time(NULL)\<close> at the end of the round.
\<close>

record 'd poll =
  sel_ret :: int
  fd_isset :: bool
  dgram :: 'd
  now :: int

text \<open>
  What the environment answers during one request: the value of \<^verbatim>\<open>sendto\<close>, the
  reading of \<^verbatim>\<open>time(NULL)\<close> from which the deadline is computed, and the rounds.
\<close>

record 'd exchange =
  sendto_ret :: int
  time_null :: int
  polls :: "'d poll list"

text \<open>
  How a call can end without a result: \<^verbatim>\<open>exit(1)\<close> in \<^verbatim>\<open>send_to_node\<close>; an index
  outside its array; a signed addition out of range; a store through a pointer that was
  never set; the use of the value of a function that ended without \<^verbatim>\<open>return\<close>; and,
  for the model only, a list of rounds that ends before the loop does.
\<close>

datatype error =
    Exit1
  | Out_of_bounds
  | Signed_overflow
  | Uninitialised_pointer
  | No_return_value
  | Env_exhausted

definition M :: int where
  "M = 64"

subsection \<open>closest\_preceding\_node\<close>

text \<open>
  The loop \<^verbatim>\<open>for (int i = M - 1; i >= 0; i--)\<close>: the last argument is \<open>i + 1\<close>.
\<close>

fun closest_preceding_node_loop ::
  "'d externs \<Rightarrow> state \<Rightarrow> 64 word \<Rightarrow> nat \<Rightarrow> error + Node" where
  "closest_preceding_node_loop X s id' 0 = Inr (self s)"
| "closest_preceding_node_loop X s id' (Suc i) =
     (if length (finger_table s) \<le> i then Inl Out_of_bounds
      else if key (finger_table s ! i) \<noteq> 0
              \<and> element_of X (key (finger_table s ! i)) (hash s) id' 0 \<noteq> 0
           then Inr (finger_table s ! i)
      else closest_preceding_node_loop X s id' i)"

definition closest_preceding_node :: "'d externs \<Rightarrow> 64 word \<Rightarrow> state \<Rightarrow> error + Node" where
  "closest_preceding_node X id' s = closest_preceding_node_loop X s id' (nat M)"

subsection \<open>pack\_chord\_message, send\_to\_node and wait\_for\_response\<close>

text \<open>
  The argument \<^verbatim>\<open>total_size\<close> of \<^verbatim>\<open>pack_chord_message\<close>, as its callers give it:
  \<^verbatim>\<open>stabilize\<close> passes the address of its local \<^verbatim>\<open>size\<close>;
  \<^verbatim>\<open>fix_successor_list\<close> and \<^verbatim>\<open>find_successor\<close> declare \<^verbatim>\<open>uint64_t* msg_len;\<close>
  and pass it without ever having set it.
\<close>

datatype size_pointer =
    Address_of_local
  | Uninitialised

text \<open>
  \<^verbatim>\<open>pack_chord_message\<close>: the first thing done after the size is computed is the store
  \<^verbatim>\<open>*total_size = sizeof(uint64_t) + msg_len\<close>. Through a pointer that was never set
  this is undefined, and the call does not return a buffer. The buffer returned otherwise
  stands for the message it holds.
\<close>

definition pack_chord_message :: "ChordMessage \<Rightarrow> size_pointer \<Rightarrow> error + ChordMessage" where
  "pack_chord_message msg total_size =
     (case total_size of
        Uninitialised \<Rightarrow> Inl Uninitialised_pointer
      | Address_of_local \<Rightarrow> Inr msg)"

text \<open>
  \<^verbatim>\<open>send_to_node\<close>: a negative value of \<^verbatim>\<open>sendto\<close> ends the process with
  \<^verbatim>\<open>exit(1)\<close>; otherwise the datagram has left for the node.
\<close>

definition send_to_node :: "Node \<Rightarrow> ChordMessage \<Rightarrow> int \<Rightarrow> state \<Rightarrow> error + state" where
  "send_to_node nd msg ret s =
     (if ret < 0 then Inl Exit1 else Inr (s\<lparr>outbox := outbox s @ [(nd, msg)]\<rparr>))"

text \<open>
  The \<^verbatim>\<open>do ... while\<close> loop of \<^verbatim>\<open>wait_for_response\<close>, one round for each entry of the
  list. A negative \<^verbatim>\<open>select\<close> leaves the loop by \<^verbatim>\<open>break\<close>; a positive one with the
  descriptor set replaces \<open>response\<close> by the value of \<^verbatim>\<open>process_chord_msg\<close>; the
  loop goes on while the clock is before \<open>timeoutTime\<close> and the type of \<open>response\<close> is
  not the expected one.
\<close>

fun wait_for_response_loop ::
  "'d externs \<Rightarrow> int \<Rightarrow> ChordMessage__MsgCase \<Rightarrow> int \<Rightarrow> 'd poll list
     \<Rightarrow> MessageResponse \<Rightarrow> state \<Rightarrow> error + (MessageResponse \<times> state)" where
  "wait_for_response_loop X process_msg_param expected_type timeoutTime [] response s =
     Inl Env_exhausted"
| "wait_for_response_loop X process_msg_param expected_type timeoutTime (p # ps) response s =
     (if sel_ret p < 0 then Inr (response, s)
      else
        let (response', s') =
              (if sel_ret p > 0 \<and> fd_isset p
               then process_chord_msg X process_msg_param (dgram p) s
               else (response, s))
        in if now p < timeoutTime \<and> type response' \<noteq> expected_type
           then wait_for_response_loop X process_msg_param expected_type timeoutTime ps
                  response' s'
           else Inr (response', s'))"

text \<open>
  The initial \<^verbatim>\<open>{.type = CHORD_MESSAGE__MSG__NOT_SET}\<close>: the other members are zero.
\<close>

definition response_init :: MessageResponse where
  "response_init =
     \<lparr>type = CHORD_MESSAGE__MSG__NOT_SET,
      node = \<lparr>key = 0, address = 0, port = 0\<rparr>,
      successors = []\<rparr>"

text \<open>
  \<^verbatim>\<open>wait_for_response\<close>. The first reading of the clock (\<^verbatim>\<open>currTime\<close>) is overwritten
  before it is read; the second one gives \<^verbatim>\<open>timeoutTime = time(NULL) + 1\<close>.
\<close>

definition wait_for_response ::
  "'d externs \<Rightarrow> int \<Rightarrow> ChordMessage__MsgCase \<Rightarrow> 'd exchange \<Rightarrow> state
     \<Rightarrow> error + (MessageResponse \<times> state)" where
  "wait_for_response X process_msg_param expected_type ex s =
     wait_for_response_loop X process_msg_param expected_type (time_null ex + 1) (polls ex)
       response_init s"

subsection \<open>fix\_successor\_list\<close>

text \<open>
  The part of \<^verbatim>\<open>fix_successor_list\<close> that follows the call of \<^verbatim>\<open>send_to_node\<close>
  (lines 210 to 226): the wait, and the new array of \<^verbatim>\<open>num_entries + 1\<close> nodes, the
  successor first and the nodes of the response after it.
\<close>

definition fix_successor_list_after_send ::
  "'d externs \<Rightarrow> 'd exchange \<Rightarrow> state \<Rightarrow> error + state" where
  "fix_successor_list_after_send X ex s1 =
     (case wait_for_response X 3 CHORD_MESSAGE__MSG_GET_SUCCESSOR_LIST_RESPONSE ex s1 of
        Inl e \<Rightarrow> Inl e
      | Inr (resp, s2) \<Rightarrow>
          if type resp = CHORD_MESSAGE__MSG_GET_SUCCESSOR_LIST_RESPONSE
          then Inr (s2\<lparr>successor_list := successor s2 # successors resp\<rparr>)
          else Inr s2)"

text \<open>
  \<^verbatim>\<open>fix_successor_list\<close>: the message is packed with the pointer \<^verbatim>\<open>msg_len\<close>, which
  is never set (lines 206 to 208).
\<close>

definition fix_successor_list :: "'d externs \<Rightarrow> 'd exchange \<Rightarrow> state \<Rightarrow> error + state" where
  "fix_successor_list X ex s =
     (let msg = \<lparr>version = 417,
                 msg_case = CHORD_MESSAGE__MSG_GET_SUCCESSOR_LIST_REQUEST,
                 request = GetSuccessorListRequest\<rparr>
      in case pack_chord_message msg Uninitialised of
           Inl e \<Rightarrow> Inl e
         | Inr buffer \<Rightarrow>
             (case send_to_node (successor s) buffer (sendto_ret ex) s of
                Inl e \<Rightarrow> Inl e
              | Inr s1 \<Rightarrow> fix_successor_list_after_send X ex s1))"

subsection \<open>stabilize\<close>

text \<open>
  The conditional of \<^verbatim>\<open>stabilize\<close> (lines 181 to 185): the node of the response becomes
  the successor and entry 0 of the successor list.
\<close>

definition stabilize_adopt :: "'d externs \<Rightarrow> MessageResponse \<Rightarrow> state \<Rightarrow> error + state" where
  "stabilize_adopt X response s =
     (if type response = CHORD_MESSAGE__MSG_GET_PREDECESSOR_RESPONSE
         \<and> key (node response) \<noteq> 0
         \<and> element_of X (key (node response)) (hash s) (key (successor s)) 0 \<noteq> 0
      then if successor_list s = [] then Inl Out_of_bounds
           else Inr (s\<lparr>successor := node response,
                       successor_list := (successor_list s)[0 := node response]\<rparr>)
      else Inr s)"

text \<open>
  \<^verbatim>\<open>stabilize\<close>: the first exchange is its own request, the second the one of
  \<^verbatim>\<open>fix_successor_list\<close>. The message is packed with \<^verbatim>\<open>&size\<close>.
\<close>

definition stabilize ::
  "'d externs \<Rightarrow> 'd exchange \<Rightarrow> 'd exchange \<Rightarrow> state \<Rightarrow> error + state" where
  "stabilize X ex1 ex2 s =
     (let msg = \<lparr>version = 417,
                 msg_case = CHORD_MESSAGE__MSG_GET_PREDECESSOR_REQUEST,
                 request = GetPredecessorRequest\<rparr>
      in case pack_chord_message msg Address_of_local of
           Inl e \<Rightarrow> Inl e
         | Inr buffer \<Rightarrow>
             (case send_to_node (successor s) buffer (sendto_ret ex1) s of
                Inl e \<Rightarrow> Inl e
              | Inr s1 \<Rightarrow>
                  (case wait_for_response X 2 CHORD_MESSAGE__MSG_GET_PREDECESSOR_RESPONSE
                          ex1 s1 of
                     Inl e \<Rightarrow> Inl e
                   | Inr (response, s2) \<Rightarrow>
                       (case stabilize_adopt X response s2 of
                          Inl e \<Rightarrow> Inl e
                        | Inr s3 \<Rightarrow> fix_successor_list X ex2 (notify X s3)))))"

subsection \<open>find\_successor and fix\_fingers\<close>

text \<open>
  The part of \<^verbatim>\<open>find_successor\<close> that follows the call of \<^verbatim>\<open>send_to_node\<close> (lines
  263 to 271). The value is \<open>None\<close> when control reaches the closing brace of the
  function without a \<^verbatim>\<open>return\<close>: the branch that prints ``Wrong Message Type!''.
\<close>

definition find_successor_after_send ::
  "'d externs \<Rightarrow> 'd exchange \<Rightarrow> state \<Rightarrow> error + (Node option \<times> state)" where
  "find_successor_after_send X ex s1 =
     (case wait_for_response X 4 CHORD_MESSAGE__MSG_START_FIND_SUCCESSOR_RESPONSE ex s1 of
        Inl e \<Rightarrow> Inl e
      | Inr (resp, s2) \<Rightarrow>
          if type resp = CHORD_MESSAGE__MSG_START_FIND_SUCCESSOR_RESPONSE
          then Inr (Some (node resp), s2)
          else Inr (None, s2))"

text \<open>
  \<^verbatim>\<open>find_successor\<close>. In the second branch the message is packed with the pointer
  \<^verbatim>\<open>msg_len\<close>, which is never set (lines 259 to 261).
\<close>

definition find_successor ::
  "'d externs \<Rightarrow> 'd exchange \<Rightarrow> 64 word \<Rightarrow> state \<Rightarrow> error + (Node option \<times> state)" where
  "find_successor X ex id' s =
     (if element_of X id' (hash s) (key (successor s)) 1 \<noteq> 0 then Inr (Some (successor s), s)
      else
        case closest_preceding_node X id' s of
          Inl e \<Rightarrow> Inl e
        | Inr n_bar \<Rightarrow>
            (let msg = \<lparr>version = 417,
                        msg_case = CHORD_MESSAGE__MSG_START_FIND_SUCCESSOR_REQUEST,
                        request = StartFindSuccessorRequest id'\<rparr>
             in case pack_chord_message msg Uninitialised of
                  Inl e \<Rightarrow> Inl e
                | Inr buffer \<Rightarrow>
                    (case send_to_node n_bar buffer (sendto_ret ex) s of
                       Inl e \<Rightarrow> Inl e
                     | Inr s1 \<Rightarrow> find_successor_after_send X ex s1)))"

text \<open>
  \<^verbatim>\<open>fix_fingers\<close>. \<open>fixIndex\<close> is an \<^verbatim>\<open>int\<close>: adding one to the largest one is out of
  range, and a negative one is neither a shift count nor an index. The argument of
  \<^verbatim>\<open>find_successor\<close> is computed before the call. The entry that is assigned is located
  after the call has returned (C leaves the order open; both orders agree when
  \<^verbatim>\<open>process_chord_msg\<close> changes neither \<open>fixIndex\<close> nor \<open>finger_table\<close>). When
  \<^verbatim>\<open>find_successor\<close> has ended without \<^verbatim>\<open>return\<close>, the assignment uses a value that
  does not exist.
\<close>

definition fix_fingers :: "'d externs \<Rightarrow> 'd exchange \<Rightarrow> state \<Rightarrow> error + state" where
  "fix_fingers X ex s =
     (if fixIndex s = 2147483647 then Inl Signed_overflow
      else
        let s1 = s\<lparr>fixIndex := fixIndex s + 1\<rparr>;
            s2 = (if fixIndex s1 \<ge> M then s1\<lparr>fixIndex := 0\<rparr> else s1)
        in if fixIndex s2 < 0 then Inl Out_of_bounds
           else
             case find_successor X ex (hash s2 + push_bit (nat (fixIndex s2)) 1) s2 of
               Inl e \<Rightarrow> Inl e
             | Inr (None, s3) \<Rightarrow> Inl No_return_value
             | Inr (Some n, s3) \<Rightarrow>
                 if 0 \<le> fixIndex s3 \<and> nat (fixIndex s3) < length (finger_table s3)
                 then Inr (s3\<lparr>finger_table := (finger_table s3)[nat (fixIndex s3) := n]\<rparr>)
                 else Inl Out_of_bounds)"

subsection \<open>Notation for the statements\<close>

text \<open>
  The three messages that the functions build, and the state once \<^verbatim>\<open>sendto\<close> has
  accepted a message for a node.
\<close>

abbreviation get_predecessor_msg :: ChordMessage where
  "get_predecessor_msg \<equiv>
     \<lparr>version = 417, msg_case = CHORD_MESSAGE__MSG_GET_PREDECESSOR_REQUEST,
      request = GetPredecessorRequest\<rparr>"


abbreviation start_find_successor_msg :: "64 word \<Rightarrow> ChordMessage" where
  "start_find_successor_msg k \<equiv>
     \<lparr>version = 417, msg_case = CHORD_MESSAGE__MSG_START_FIND_SUCCESSOR_REQUEST,
      request = StartFindSuccessorRequest k\<rparr>"

abbreviation sent :: "Node \<Rightarrow> ChordMessage \<Rightarrow> state \<Rightarrow> state" where
  "sent nd msg s \<equiv> s\<lparr>outbox := outbox s @ [(nd, msg)]\<rparr>"

subsection \<open>The interval predicate and the list of length r of the spec\<close>

text \<open>
  Modelled from the spec: \<^verbatim>\<open>element_of\<close> is declared in \<^verbatim>\<open>chord.h\<close> and defined
  outside the sources. The spec calls it \<open>in_ring\<close>: \<open>x\<close> lies on the clockwise arc
  from \<open>a\<close> to \<open>b\<close>, \<open>a\<close> excluded, \<open>b\<close> included iff \<open>inclusive_b\<close>; for \<open>a = b\<close> the
  tie-break rules of its section 4.1 and the laws of its section 8 are followed (false
  when not inclusive, otherwise everything except \<open>a\<close>). Differences are modulo \<open>2^64\<close>.
\<close>

definition in_ring :: "64 word \<Rightarrow> 64 word \<Rightarrow> 64 word \<Rightarrow> bool \<Rightarrow> bool" where
  "in_ring x a b inclusive_b =
     (if a = b then inclusive_b \<and> x \<noteq> a
      else x \<noteq> a \<and> (x - a < b - a \<or> (inclusive_b \<and> x = b)))"



text \<open>
  Modelled from the spec: \<^verbatim>\<open>notify\<close> is declared in \<^verbatim>\<open>chord.h\<close> and defined outside
  the sources. The spec: send \<open>NOTIFY{self}\<close> to the successor.
\<close>

definition spec_notify :: "state \<Rightarrow> state" where
  "spec_notify s =
     s\<lparr>outbox := outbox s @
          [(successor s,
            \<lparr>version = 417, msg_case = CHORD_MESSAGE__MSG_NOTIFY_REQUEST,
             request = NotifyRequest (self s)\<rparr>)]\<rparr>"

text \<open>
  Modelled from the spec: an instance of the external functions, for the concrete runs
  below. \<open>element_of\<close> is \<open>in_ring\<close> as a C truth value; a datagram is the
  \<open>MessageResponse\<close> it decodes to, and \<open>process_chord_msg\<close> returns it and leaves the
  state as it is (the spec's handlers are pure functions of state and request);
  \<open>notify\<close> is \<open>spec_notify\<close>.
\<close>

definition ring_externs :: "MessageResponse externs" where
  "ring_externs =
     \<lparr>element_of = (\<lambda>curr_var r1 r2 is_inclusive.
                      if in_ring curr_var r1 r2 (is_inclusive \<noteq> 0) then 1 else 0),
      process_chord_msg = (\<lambda>i d s. (d, s)),
      notify = spec_notify\<rparr>"

subsection \<open>A ring of three nodes\<close>

text \<open>
  The nodes 5, 15 and 25 of the spec's scenario S3, a node 12 that joins between 5 and 15,
  and the state of node 5 and of node 25 once the ring has converged: every finger of node
  25 is node 5; those of node 5 are node 15 (indices 0 to 3), node 25 (index 4) and node 5
  itself (from index 5 on).
\<close>

definition n5 :: Node where
  "n5 = \<lparr>key = 5, address = 2130706433, port = 4005\<rparr>"


definition n15 :: Node where
  "n15 = \<lparr>key = 15, address = 2130706433, port = 4015\<rparr>"

definition n25 :: Node where
  "n25 = \<lparr>key = 25, address = 2130706433, port = 4025\<rparr>"

definition n_zero :: Node where
  "n_zero = \<lparr>key = 0, address = 2130706433, port = 4000\<rparr>"

definition state5 :: state where
  "state5 =
     \<lparr>hash = 5, predecessor = n25, successor = n15,
      finger_table = replicate 4 n15 @ [n25] @ replicate 59 n5,
      successor_list = [n15, n25], self = n5,
      succListIndex = 0, fixIndex = 3, outbox = []\<rparr>"

text \<open>Node 5 with a stale finger 4: node 15 where node 25 should be.\<close>

definition state5_stale :: state where
  "state5_stale = state5\<lparr>finger_table := replicate 5 n15 @ replicate 59 n5\<rparr>"

definition state25 :: state where
  "state25 =
     \<lparr>hash = 25, predecessor = n15, successor = n5,
      finger_table = replicate 64 n5,
      successor_list = [n5, n15], self = n25,
      succListIndex = 0, fixIndex = 63, outbox = []\<rparr>"


text \<open>
  Environments. \<open>reply r\<close>: the datagram \<open>r\<close> arrives in the first round, within the
  second of the deadline. \<open>silence\<close>: nothing arrives, and the only round ends at the
  deadline. \<open>stray_then_silence r\<close>: \<open>r\<close> arrives in the first round, nothing
  after it, and the second round ends at the deadline.
\<close>

definition reply :: "MessageResponse \<Rightarrow> MessageResponse exchange" where
  "reply r =
     \<lparr>sendto_ret = 40, time_null = 1000,
      polls = [\<lparr>sel_ret = 1, fd_isset = True, dgram = r, now = 1000\<rparr>]\<rparr>"

definition silence :: "MessageResponse exchange" where
  "silence =
     \<lparr>sendto_ret = 40, time_null = 1000,
      polls = [\<lparr>sel_ret = 0, fd_isset = False, dgram = response_init, now = 1001\<rparr>]\<rparr>"

definition stray_then_silence :: "MessageResponse \<Rightarrow> MessageResponse exchange" where
  "stray_then_silence r =
     \<lparr>sendto_ret = 40, time_null = 1000,
      polls = [\<lparr>sel_ret = 1, fd_isset = True, dgram = r, now = 1000\<rparr>,
               \<lparr>sel_ret = 0, fd_isset = False, dgram = response_init, now = 1001\<rparr>]\<rparr>"

section \<open>Properties\<close>

subsection \<open>closest\_preceding\_node\<close>

lemma closest_preceding_node_loop_find:
  "n \<le> length (finger_table s) \<Longrightarrow>
   closest_preceding_node_loop X s k n =
     Inr (case find (\<lambda>f. key f \<noteq> 0 \<and> element_of X (key f) (hash s) k 0 \<noteq> 0)
                 (rev (take n (finger_table s))) of
            None \<Rightarrow> self s | Some f \<Rightarrow> f)"
proof (induction n)
  case 0
  then show ?case by simp
next
  case (Suc n)
  then have "n < length (finger_table s)" by simp
  then have "take (Suc n) (finger_table s) = take n (finger_table s) @ [finger_table s ! n]"
    by (rule take_Suc_conv_app_nth)
  with Suc show ?case by simp
qed

text \<open>
  Claim C4. On a finger table of at least \<open>M\<close> entries, \<open>closest_preceding_node k\<close>
  returns the first entry, going from index \<open>M - 1\<close> down to index 0, whose key is not
  zero and lies in the open arc from the node's own identifier (the global \<open>hash\<close>) to
  \<open>k\<close>, that is, for which \<open>element_of\<close> with \<open>is_inclusive = 0\<close> is true; it returns
  \<open>self\<close> when there is none. So the result is \<open>self\<close> or a finger whose key lies in
  that arc.
\<close>

theorem closest_preceding_node_scan:
  assumes "nat M \<le> length (finger_table s)"
  shows "closest_preceding_node X k s =
           Inr (case find (\<lambda>f. key f \<noteq> 0 \<and> element_of X (key f) (hash s) k 0 \<noteq> 0)
                       (rev (take (nat M) (finger_table s))) of
                  None \<Rightarrow> self s | Some f \<Rightarrow> f)
         \<and> (\<exists>r. closest_preceding_node X k s = Inr r
                \<and> (r = self s
                   \<or> r \<in> set (finger_table s) \<and> key r \<noteq> 0
                     \<and> element_of X (key r) (hash s) k 0 \<noteq> 0))"
proof -
  let ?P = "\<lambda>f. key f \<noteq> 0 \<and> element_of X (key f) (hash s) k 0 \<noteq> 0"
  let ?fs = "rev (take (nat M) (finger_table s))"
  have eq: "closest_preceding_node X k s = Inr (case find ?P ?fs of None \<Rightarrow> self s | Some f \<Rightarrow> f)"
    unfolding closest_preceding_node_def
    using assms by (rule closest_preceding_node_loop_find)
  have "(case find ?P ?fs of None \<Rightarrow> self s | Some f \<Rightarrow> f) = self s
        \<or> (case find ?P ?fs of None \<Rightarrow> self s | Some f \<Rightarrow> f) \<in> set (finger_table s)
          \<and> ?P (case find ?P ?fs of None \<Rightarrow> self s | Some f \<Rightarrow> f)"
  proof (cases "find ?P ?fs")
    case None
    then show ?thesis by simp
  next
    case (Some f)
    then obtain i where i: "i < length ?fs" "?P (?fs ! i)" "f = ?fs ! i"
      unfolding find_Some_iff by blast
    then have "?P f" and "f \<in> set ?fs"
      using nth_mem [of i ?fs] by simp_all
    moreover have "set ?fs \<subseteq> set (finger_table s)"
      by (simp add: set_take_subset)
    ultimately show ?thesis using Some by auto
  qed
  with eq show ?thesis by auto
qed

text \<open>
  At node 5 of the ring of three, for the key 20: the fingers 63 down to 5 are node 5
  itself, finger 4 is node 25, which is not between 5 and 20, and finger 3 is node 15.
\<close>

theorem closest_preceding_node_scan_witness:
  "nat M \<le> length (finger_table state5)
   \<and> closest_preceding_node ring_externs 20 state5 = Inr n15
   \<and> n15 \<noteq> self state5
   \<and> element_of ring_externs (key n15) (hash state5) 20 0 \<noteq> 0"
proof -
  have len: "nat M \<le> length (finger_table state5)"
    by (simp add: M_def state5_def)
  have val: "(case find (\<lambda>f. key f \<noteq> 0 \<and> element_of ring_externs (key f) (hash state5) 20 0 \<noteq> 0)
                     (rev (take (nat M) (finger_table state5))) of
                None \<Rightarrow> self state5 | Some f \<Rightarrow> f) = n15"
    by code_simp
  have arc: "n15 \<noteq> self state5 \<and> element_of ring_externs (key n15) (hash state5) 20 0 \<noteq> 0"
    by code_simp
  from closest_preceding_node_scan [OF len, of ring_externs 20] val
  have "closest_preceding_node ring_externs 20 state5 = Inr n15"
    by simp
  with len arc show ?thesis by blast
qed

subsection \<open>find\_successor\<close>

text \<open>
  Claim C3. When \<open>element_of k hash successor.key 1\<close> is true, \<open>find_successor k\<close>
  returns the successor and the state is the one it started from: the list of datagrams
  sent is the same, no message has left.
\<close>

theorem find_successor_own_arc:
  assumes "element_of X k (hash s) (key (successor s)) 1 \<noteq> 0"
  shows "find_successor X ex k s = Inr (Some (successor s), s)"
  using assms by (simp add: find_successor_def)

text \<open>At node 25, whose successor is node 5, for the key 2.\<close>

theorem find_successor_own_arc_witness:
  "element_of ring_externs 2 (hash state25) (key (successor state25)) 1 \<noteq> 0
   \<and> find_successor ring_externs silence 2 state25 = Inr (Some n5, state25)
   \<and> outbox state25 = []"
proof -
  have arc: "element_of ring_externs 2 (hash state25) (key (successor state25)) 1 \<noteq> 0"
    by code_simp
  have succ: "successor state25 = n5" and out: "outbox state25 = []"
    by (simp_all add: state25_def)
  from find_successor_own_arc [OF arc, of silence] succ
  have "find_successor ring_externs silence 2 state25 = Inr (Some n5, state25)"
    by simp
  with arc out show ?thesis by blast
qed








subsection \<open>fix\_fingers\<close>

text \<open>
  When the key \<open>hash + 2^i\<close> of the finger to refresh lies in the arc of the first branch
  of \<open>find_successor\<close>, the cursor moves to \<open>i = (fixIndex + 1) mod M\<close> and entry \<open>i\<close> of
  the finger table becomes the successor; nothing else changes.
\<close>

lemma fix_fingers_own_arc:
  assumes "0 \<le> fixIndex s" and "fixIndex s < M"
    and "length (finger_table s) = nat M"
    and "element_of X (hash s + 2 ^ nat ((fixIndex s + 1) mod M)) (hash s)
           (key (successor s)) 1 \<noteq> 0"
  shows "fix_fingers X ex s =
           Inr (s\<lparr>fixIndex := (fixIndex s + 1) mod M,
                  finger_table := (finger_table s)[nat ((fixIndex s + 1) mod M) := successor s]\<rparr>)"
proof -
  let ?i = "(fixIndex s + 1) mod M"
  have i_range: "0 \<le> ?i" "?i < M"
    by (simp_all add: M_def)
  have i_eq: "?i = (if fixIndex s + 1 \<ge> M then 0 else fixIndex s + 1)"
  proof (cases "fixIndex s + 1 \<ge> M")
    case True
    with assms(2) have "fixIndex s = 63" by (simp add: M_def)
    with True show ?thesis by (simp add: M_def)
  next
    case False
    with assms(1) show ?thesis by (simp add: M_def)
  qed
  have adv: "(if fixIndex (s\<lparr>fixIndex := fixIndex s + 1\<rparr>) \<ge> M
              then (s\<lparr>fixIndex := fixIndex s + 1\<rparr>)\<lparr>fixIndex := 0\<rparr>
              else s\<lparr>fixIndex := fixIndex s + 1\<rparr>) = s\<lparr>fixIndex := ?i\<rparr>"
    using i_eq by simp
  have no_ovf: "fixIndex s \<noteq> 2147483647"
    using assms(2) by (simp add: M_def)
  have pb: "push_bit (nat ?i) (1 :: 64 word) = 2 ^ nat ?i"
    by (simp add: push_bit_of_1)
  have in_table: "nat ?i < length (finger_table s)"
    using assms(3) i_range by (simp add: M_def)
  have look: "find_successor X ex (hash s + 2 ^ nat ?i) (s\<lparr>fixIndex := ?i\<rparr>)
              = Inr (Some (successor s), s\<lparr>fixIndex := ?i\<rparr>)"
    using assms(4) by (simp add: find_successor_def)
  show ?thesis
    unfolding fix_fingers_def Let_def adv
    using no_ovf i_range in_table look by (simp add: pb)
qed

text \<open>
  Claim C6 does not hold of the code. Node 5 refreshes finger 4. The key 21 is outside the
  arc of the first branch, so \<open>find_successor\<close> packs a request through the pointer that
  was never set: the lookup ends there, and with it \<open>fix_fingers\<close>, which has moved the
  cursor already. No failure is returned to the caller. Nor would one be returned after
  the request: the part of \<open>find_successor\<close> that follows it ends, when nothing arrives
  before the deadline, without \<^verbatim>\<open>return\<close>.
\<close>

theorem fix_fingers_failed_lookup:
  "find_successor ring_externs silence (hash state5 + 2 ^ 4) (state5\<lparr>fixIndex := 4\<rparr>)
     = Inl Uninitialised_pointer
   \<and> fix_fingers ring_externs silence state5 = Inl Uninitialised_pointer
   \<and> find_successor_after_send ring_externs silence
       (sent n15 (start_find_successor_msg 21) (state5\<lparr>fixIndex := 4\<rparr>))
     = Inr (None, sent n15 (start_find_successor_msg 21) (state5\<lparr>fixIndex := 4\<rparr>))"
  by code_simp

text \<open>
  Claim C8 does not hold of the code for every call. Node 5 has the cursor at 3 and a
  stale finger 4 (node 15, where node 25 should be). The key \<open>5 + 2^4\<close> is outside the arc
  of the first branch; the call ends in \<open>find_successor\<close> on the store through the
  pointer that was never set, although an answer is on its way, and finger 4 is not
  assigned.
\<close>

theorem fix_fingers_forwarded_lookup:
  "0 \<le> fixIndex state5_stale \<and> fixIndex state5_stale < M
   \<and> length (finger_table state5_stale) = nat M
   \<and> (fixIndex state5_stale + 1) mod M = 4
   \<and> element_of ring_externs (hash state5_stale + 2 ^ 4) (hash state5_stale)
        (key (successor state5_stale)) 1 = 0
   \<and> fix_fingers ring_externs
        (reply \<lparr>type = CHORD_MESSAGE__MSG_START_FIND_SUCCESSOR_RESPONSE, node = n25,
                successors = []\<rparr>)
        state5_stale
      = Inl Uninitialised_pointer"
  by code_simp

subsection \<open>stabilize\<close>



text \<open>
  Claim C9. A response whose node has key 0 is never adopted: the conditional of
  \<open>stabilize\<close> leaves the state, and so the successor and entry 0 of the successor
  list, as they are, and \<open>stabilize\<close> goes on with \<open>notify\<close> and
  \<open>fix_successor_list\<close> from that state.
\<close>

theorem stabilize_zero_key_not_adopted:
  assumes "key (node p) = 0"
    and "0 \<le> sendto_ret ex1"
    and "wait_for_response X 2 CHORD_MESSAGE__MSG_GET_PREDECESSOR_RESPONSE ex1
           (sent (successor s) get_predecessor_msg s) = Inr (p, s')"
  shows "stabilize_adopt X p s' = Inr s'
         \<and> stabilize X ex1 ex2 s = fix_successor_list X ex2 (notify X s')"
  using assms
  by (simp add: stabilize_def stabilize_adopt_def send_to_node_def pack_chord_message_def)

text \<open>
  Node 25, whose successor is node 5, is told of a predecessor with key 0. The key 0 lies
  between 25 and 5 on the ring, and yet node 5 remains the successor.
\<close>

theorem stabilize_zero_key_not_adopted_witness:
  "key (node \<lparr>type = CHORD_MESSAGE__MSG_GET_PREDECESSOR_RESPONSE, node = n_zero,
              successors = []\<rparr>) = 0
   \<and> 0 \<le> sendto_ret
           (reply \<lparr>type = CHORD_MESSAGE__MSG_GET_PREDECESSOR_RESPONSE, node = n_zero,
                   successors = []\<rparr>)
   \<and> element_of ring_externs (key n_zero) (hash state25) (key (successor state25)) 0 \<noteq> 0
   \<and> stabilize ring_externs
        (reply \<lparr>type = CHORD_MESSAGE__MSG_GET_PREDECESSOR_RESPONSE, node = n_zero,
                successors = []\<rparr>)
        silence state25
      = fix_successor_list ring_externs silence
          (state25\<lparr>outbox := [(n5, get_predecessor_msg),
                                (n5, \<lparr>version = 417,
                                      msg_case = CHORD_MESSAGE__MSG_NOTIFY_REQUEST,
                                      request = NotifyRequest n25\<rparr>)]\<rparr>)
   \<and> successor state25 = n5 \<and> successor_list state25 = [n5, n15]"
proof -
  let ?p = "\<lparr>type = CHORD_MESSAGE__MSG_GET_PREDECESSOR_RESPONSE, node = n_zero,
             successors = []\<rparr>"
  let ?s' = "sent (successor state25) get_predecessor_msg state25"
  let ?t = "state25\<lparr>outbox := [(n5, get_predecessor_msg),
                                 (n5, \<lparr>version = 417,
                                       msg_case = CHORD_MESSAGE__MSG_NOTIFY_REQUEST,
                                       request = NotifyRequest n25\<rparr>)]\<rparr>"
  have h1: "key (node ?p) = 0"
    by (simp add: n_zero_def)
  have h2: "0 \<le> sendto_ret (reply ?p)"
    by (simp add: reply_def)
  have h3: "wait_for_response ring_externs 2 CHORD_MESSAGE__MSG_GET_PREDECESSOR_RESPONSE
              (reply ?p) ?s' = Inr (?p, ?s')"
    by (simp add: wait_for_response_def reply_def ring_externs_def)
  have arc: "element_of ring_externs (key n_zero) (hash state25) (key (successor state25)) 0 \<noteq> 0"
    by code_simp
  have st: "successor state25 = n5 \<and> successor_list state25 = [n5, n15]"
    by (simp add: state25_def)
  have run: "notify ring_externs ?s' = ?t"
    by code_simp
  from stabilize_zero_key_not_adopted [OF h1 h2 h3, of silence] run
  have "stabilize ring_externs (reply ?p) silence state25
        = fix_successor_list ring_externs silence ?t"
    by simp
  with h1 h2 arc st show ?thesis by blast
qed

subsection \<open>fix\_successor\_list\<close>




subsection \<open>wait\_for\_response\<close>

lemma wait_for_response_loop_returns:
  "\<exists>q\<in>set ps. sel_ret q < 0 \<or> T \<le> now q \<Longrightarrow>
   \<exists>r' s'. wait_for_response_loop X prm e T ps r s = Inr (r', s')"
proof (induction ps arbitrary: r s)
  case Nil
  then show ?case by simp
next
  case (Cons q ps)
  show ?case
  proof (cases "sel_ret q < 0")
    case True
    then show ?thesis by simp
  next
    case neg: False
    obtain r1 s1 where step:
      "(if sel_ret q > 0 \<and> fd_isset q then process_chord_msg X prm (dgram q) s else (r, s))
       = (r1, s1)"
      by (cases "if sel_ret q > 0 \<and> fd_isset q
                 then process_chord_msg X prm (dgram q) s else (r, s)")
    show ?thesis
    proof (cases "now q < T \<and> type r1 \<noteq> e")
      case True
      with neg Cons.prems have "\<exists>q\<in>set ps. sel_ret q < 0 \<or> T \<le> now q"
        by auto
      then have "\<exists>r' s'. wait_for_response_loop X prm e T ps r1 s1 = Inr (r', s')"
        by (rule Cons.IH)
      with neg step True show ?thesis by simp
    next
      case False
      with neg step show ?thesis by auto
    qed
  qed
qed

lemma wait_for_response_loop_result:
  "wait_for_response_loop X prm e T ps r s = Inr (r', s') \<Longrightarrow>
   type r' = e
   \<or> (\<exists>q\<in>set ps. sel_ret q < 0 \<or> T \<le> now q)
     \<and> (r' = r
        \<or> (\<exists>q\<in>set ps. \<exists>s0. 0 < sel_ret q \<and> fd_isset q
               \<and> r' = fst (process_chord_msg X prm (dgram q) s0)))"
proof (induction ps arbitrary: r s)
  case Nil
  then show ?case by simp
next
  case (Cons q ps)
  show ?case
  proof (cases "sel_ret q < 0")
    case True
    with Cons.prems show ?thesis by simp
  next
    case neg: False
    obtain r1 s1 where step:
      "(if sel_ret q > 0 \<and> fd_isset q then process_chord_msg X prm (dgram q) s else (r, s))
       = (r1, s1)"
      by (cases "if sel_ret q > 0 \<and> fd_isset q
                 then process_chord_msg X prm (dgram q) s else (r, s)")
    then have r1: "r1 = r \<or> 0 < sel_ret q \<and> fd_isset q
                     \<and> r1 = fst (process_chord_msg X prm (dgram q) s)"
      by (auto split: if_splits)
    show ?thesis
    proof (cases "now q < T \<and> type r1 \<noteq> e")
      case True
      with neg step Cons.prems
      have "wait_for_response_loop X prm e T ps r1 s1 = Inr (r', s')"
        by simp
      from Cons.IH [OF this] r1 show ?thesis
        by auto
    next
      case False
      with neg step Cons.prems have "r' = r1" by auto
      with False r1 show ?thesis by auto
    qed
  qed
qed

text \<open>
  Claim C7, as stated, fails: a response of another tag can be the value returned. While
  node 5 waits for a \<open>GET_PREDECESSOR_RESPONSE\<close>, a \<open>NOTIFY\<close> is processed, and
  nothing more arrives before the deadline: the value returned is the response of the
  \<open>NOTIFY\<close>, whose type is neither the expected one nor \<open>NOT_SET\<close>.
\<close>

theorem wait_for_response_counterexample:
  "wait_for_response ring_externs 2 CHORD_MESSAGE__MSG_GET_PREDECESSOR_RESPONSE
     (stray_then_silence
        \<lparr>type = CHORD_MESSAGE__MSG_NOTIFY_REQUEST, node = n25, successors = []\<rparr>)
     state5
   = Inr (\<lparr>type = CHORD_MESSAGE__MSG_NOTIFY_REQUEST, node = n25, successors = []\<rparr>, state5)
   \<and> CHORD_MESSAGE__MSG_NOTIFY_REQUEST \<noteq> CHORD_MESSAGE__MSG_GET_PREDECESSOR_RESPONSE
   \<and> CHORD_MESSAGE__MSG_NOTIFY_REQUEST \<noteq> CHORD_MESSAGE__MSG__NOT_SET"
  by (simp add: wait_for_response_def stray_then_silence_def ring_externs_def)

text \<open>
  Claim C7, amended. \<open>wait_for_response\<close> returns once \<^verbatim>\<open>select\<close> has failed or the
  clock has reached the deadline (one second after the start), if not before. The value
  returned has the expected type, or else the wait was ended by the deadline or by the
  failure of \<^verbatim>\<open>select\<close> and the value is the response of a datagram processed during
  the wait, of whatever type, or the initial response of type \<open>NOT_SET\<close> when none was
  processed.
\<close>

theorem wait_for_response_result:
  "((\<exists>q\<in>set (polls ex). sel_ret q < 0 \<or> time_null ex + 1 \<le> now q)
      \<longrightarrow> (\<exists>r s'. wait_for_response X prm e ex s = Inr (r, s')))
   \<and> (\<forall>r s'. wait_for_response X prm e ex s = Inr (r, s') \<longrightarrow>
         type r = e
         \<or> (\<exists>q\<in>set (polls ex). sel_ret q < 0 \<or> time_null ex + 1 \<le> now q)
           \<and> (r = response_init \<and> type r = CHORD_MESSAGE__MSG__NOT_SET
              \<or> (\<exists>q\<in>set (polls ex). \<exists>s0. 0 < sel_ret q \<and> fd_isset q
                     \<and> r = fst (process_chord_msg X prm (dgram q) s0))))"
proof (intro conjI allI impI)
  assume "\<exists>q\<in>set (polls ex). sel_ret q < 0 \<or> time_null ex + 1 \<le> now q"
  then show "\<exists>r s'. wait_for_response X prm e ex s = Inr (r, s')"
    unfolding wait_for_response_def by (rule wait_for_response_loop_returns)
next
  fix r s'
  assume "wait_for_response X prm e ex s = Inr (r, s')"
  then have "wait_for_response_loop X prm e (time_null ex + 1) (polls ex) response_init s
             = Inr (r, s')"
    by (simp add: wait_for_response_def)
  from wait_for_response_loop_result [OF this]
  show "type r = e
         \<or> (\<exists>q\<in>set (polls ex). sel_ret q < 0 \<or> time_null ex + 1 \<le> now q)
           \<and> (r = response_init \<and> type r = CHORD_MESSAGE__MSG__NOT_SET
              \<or> (\<exists>q\<in>set (polls ex). \<exists>s0. 0 < sel_ret q \<and> fd_isset q
                     \<and> r = fst (process_chord_msg X prm (dgram q) s0)))"
    by (auto simp: response_init_def)
qed

text \<open>
  Node 25 waits for the answer to a lookup; a liveness probe is processed instead, and
  the second round ends at the deadline.
\<close>

theorem wait_for_response_result_witness:
  "(\<exists>q\<in>set (polls (stray_then_silence
                      \<lparr>type = CHORD_MESSAGE__MSG_CHECK_PREDECESSOR_REQUEST, node = n15,
                       successors = []\<rparr>)).
       sel_ret q < 0
       \<or> time_null (stray_then_silence
                      \<lparr>type = CHORD_MESSAGE__MSG_CHECK_PREDECESSOR_REQUEST, node = n15,
                       successors = []\<rparr>) + 1 \<le> now q)
   \<and> wait_for_response ring_externs 4 CHORD_MESSAGE__MSG_START_FIND_SUCCESSOR_RESPONSE
       (stray_then_silence
          \<lparr>type = CHORD_MESSAGE__MSG_CHECK_PREDECESSOR_REQUEST, node = n15, successors = []\<rparr>)
       state25
     = Inr (\<lparr>type = CHORD_MESSAGE__MSG_CHECK_PREDECESSOR_REQUEST, node = n15,
             successors = []\<rparr>, state25)
   \<and> (\<exists>q\<in>set (polls (stray_then_silence
                        \<lparr>type = CHORD_MESSAGE__MSG_CHECK_PREDECESSOR_REQUEST, node = n15,
                         successors = []\<rparr>)).
        \<exists>s0. 0 < sel_ret q \<and> fd_isset q
           \<and> \<lparr>type = CHORD_MESSAGE__MSG_CHECK_PREDECESSOR_REQUEST, node = n15,
               successors = []\<rparr>
             = fst (process_chord_msg ring_externs 4 (dgram q) s0))"
proof -
  let ?c = "\<lparr>type = CHORD_MESSAGE__MSG_CHECK_PREDECESSOR_REQUEST, node = n15,
             successors = []\<rparr>"
  let ?E = "stray_then_silence ?c"
  have late: "\<exists>q\<in>set (polls ?E). sel_ret q < 0 \<or> time_null ?E + 1 \<le> now q"
    by (simp add: stray_then_silence_def)
  have run: "wait_for_response ring_externs 4 CHORD_MESSAGE__MSG_START_FIND_SUCCESSOR_RESPONSE
               ?E state25 = Inr (?c, state25)"
    by (simp add: wait_for_response_def stray_then_silence_def ring_externs_def)
  have other: "type ?c \<noteq> CHORD_MESSAGE__MSG_START_FIND_SUCCESSOR_RESPONSE"
    and "type ?c \<noteq> CHORD_MESSAGE__MSG__NOT_SET"
    by simp_all
  with wait_for_response_result
         [of ?E ring_externs 4 CHORD_MESSAGE__MSG_START_FIND_SUCCESSOR_RESPONSE state25]
       run
  have "\<exists>q\<in>set (polls ?E). \<exists>s0. 0 < sel_ret q \<and> fd_isset q
           \<and> ?c = fst (process_chord_msg ring_externs 4 (dgram q) s0)"
    by blast
  with late run show ?thesis by blast
qed

end
